theory Spec2Isabelle
  imports Main
begin

section \<open>Values\<close>

text \<open>
  A Go \<^verbatim>\<open>[]byte\<close> and a Go \<^verbatim>\<open>string\<close> are both sequences of bytes; a
  \<^typ>\<open>char\<close> is one byte, so \<^verbatim>\<open>string(p)\<close> is the identity on the model.
  A buffer handed to \<^verbatim>\<open>Read\<close> is modelled with \<^verbatim>\<open>cap(p) = len(p)\<close>.
\<close>

type_synonym bytes = string

text \<open>A non-nil Go \<^verbatim>\<open>error\<close>; \<^verbatim>\<open>nil\<close> is \<^const>\<open>None\<close>.\<close>

datatype error = Err string

type_synonym RequestID = string

text \<open>
  \<^verbatim>\<open>http.Header\<close> is a \<^verbatim>\<open>map[string][]string\<close>. Go leaves the order in which
  \<^verbatim>\<open>range\<close> enumerates a map unspecified; the association list is the map in the
  order in which the next \<^verbatim>\<open>range\<close> loop enumerates it.
\<close>

type_synonym Header = "(string \<times> string list) list"

section \<open>The fragment of package fmt the program uses\<close>

text \<open>Operands with their Go types: \<^verbatim>\<open>string\<close>, \<^verbatim>\<open>RequestID\<close> and \<^verbatim>\<open>int\<close>.\<close>

datatype arg = S string | RID RequestID | I int

fun nat_digits :: "nat \<Rightarrow> string" where
  "nat_digits n =
     (if n < 10 then [''0123456789'' ! n]
      else nat_digits (n div 10) @ [''0123456789'' ! (n mod 10)])"

declare nat_digits.simps [simp del]

definition itoa :: "int \<Rightarrow> string" where
  "itoa i = (if i < 0 then ''-'' @ nat_digits (nat (- i)) else nat_digits (nat i))"

text \<open>The default format \<^verbatim>\<open>%v\<close> of an operand.\<close>

fun fmt_v :: "arg \<Rightarrow> string" where
  "fmt_v (S s) = s"
| "fmt_v (RID s) = s"
| "fmt_v (I i) = itoa i"

fun go_type :: "arg \<Rightarrow> string" where
  "go_type (S s) = ''string''"
| "go_type (RID s) = ''marshaler.RequestID''"
| "go_type (I i) = ''int''"

text \<open>
  One verb applied to one operand. \<^verbatim>\<open>%s\<close> and \<^verbatim>\<open>%v\<close> print a string operand as
  it is, \<^verbatim>\<open>%d\<close> and \<^verbatim>\<open>%v\<close> print an integer in decimal. A verb that does not fit
  its operand prints fmt's bad-verb marker. Flags, widths and the other verbs of
  fmt are outside the model (the program's format strings have none); the model
  gives them the bad-verb marker too.
\<close>

definition bad_verb :: "char \<Rightarrow> arg \<Rightarrow> string" where
  "bad_verb v a = ''%!'' @ [v] @ ''('' @ go_type a @ ''='' @ fmt_v a @ '')''"

fun fmt_verb :: "char \<Rightarrow> arg \<Rightarrow> string" where
  "fmt_verb v (S s) = (if v = CHR ''s'' \<or> v = CHR ''v'' then s else bad_verb v (S s))"
| "fmt_verb v (RID s) = (if v = CHR ''s'' \<or> v = CHR ''v'' then s else bad_verb v (RID s))"
| "fmt_verb v (I i) = (if v = CHR ''d'' \<or> v = CHR ''v'' then itoa i else bad_verb v (I i))"

fun extra_args :: "arg list \<Rightarrow> string" where
  "extra_args [] = []"
| "extra_args [a] = go_type a @ ''='' @ fmt_v a"
| "extra_args (a # b # as) = go_type a @ ''='' @ fmt_v a @ '', '' @ extra_args (b # as)"

definition extra :: "arg list \<Rightarrow> string" where
  "extra as = (if as = [] then [] else ''%!(EXTRA '' @ extra_args as @ '')'')"

fun Sprintf :: "string \<Rightarrow> arg list \<Rightarrow> string" where
  "Sprintf [] as = extra as"
| "Sprintf [c] as = (if c = CHR ''%'' then ''%!(NOVERB)'' @ extra as else c # extra as)"
| "Sprintf (c # v # fs) as =
     (if c = CHR ''%'' then
        (if v = CHR ''%'' then CHR ''%'' # Sprintf fs as
         else (case as of
                 [] \<Rightarrow> ''%!'' @ [v] @ ''(MISSING)'' @ Sprintf fs []
               | a # as' \<Rightarrow> fmt_verb v a @ Sprintf fs as'))
      else c # Sprintf (v # fs) as)"

text \<open>\<^verbatim>\<open>Sprintln\<close>: the operands in their default format, always a space between two
  operands, and a newline at the end.\<close>

fun spaced :: "arg list \<Rightarrow> string" where
  "spaced [] = []"
| "spaced [a] = fmt_v a"
| "spaced (a # b # as) = fmt_v a @ '' '' @ spaced (b # as)"

definition Sprintln :: "arg list \<Rightarrow> string" where
  "Sprintln v = spaced v @ [CHR 0x0A]"

text \<open>\<^verbatim>\<open>Sprint\<close>: a space between two operands only when neither is of string kind.\<close>

fun is_string :: "arg \<Rightarrow> bool" where
  "is_string (S s) = True"
| "is_string (RID s) = True"
| "is_string (I i) = False"

fun Sprint :: "arg list \<Rightarrow> string" where
  "Sprint [] = []"
| "Sprint [a] = fmt_v a"
| "Sprint (a # b # as) =
     fmt_v a @ (if \<not> is_string a \<and> \<not> is_string b then '' '' else []) @ Sprint (b # as)"

section \<open>The table of net/http the program uses\<close>

definition StatusOK :: int where
  "StatusOK = 200"

definition statusText :: "(int \<times> string) list" where
  "statusText =
    [(100, ''Continue''), (101, ''Switching Protocols''), (102, ''Processing''),
     (103, ''Early Hints''),
     (200, ''OK''), (201, ''Created''), (202, ''Accepted''),
     (203, ''Non-Authoritative Information''), (204, ''No Content''),
     (205, ''Reset Content''), (206, ''Partial Content''), (207, ''Multi-Status''),
     (208, ''Already Reported''), (226, ''IM Used''),
     (300, ''Multiple Choices''), (301, ''Moved Permanently''), (302, ''Found''),
     (303, ''See Other''), (304, ''Not Modified''), (305, ''Use Proxy''),
     (307, ''Temporary Redirect''), (308, ''Permanent Redirect''),
     (400, ''Bad Request''), (401, ''Unauthorized''), (402, ''Payment Required''),
     (403, ''Forbidden''), (404, ''Not Found''), (405, ''Method Not Allowed''),
     (406, ''Not Acceptable''), (407, ''Proxy Authentication Required''),
     (408, ''Request Timeout''), (409, ''Conflict''), (410, ''Gone''),
     (411, ''Length Required''), (412, ''Precondition Failed''),
     (413, ''Request Entity Too Large''), (414, ''Request URI Too Long''),
     (415, ''Unsupported Media Type''), (416, ''Requested Range Not Satisfiable''),
     (417, ''Expectation Failed''), (418, ''I'' @ [CHR 0x27] @ ''m a teapot''),
     (421, ''Misdirected Request''), (422, ''Unprocessable Entity''), (423, ''Locked''),
     (424, ''Failed Dependency''), (425, ''Too Early''), (426, ''Upgrade Required''),
     (428, ''Precondition Required''), (429, ''Too Many Requests''),
     (431, ''Request Header Fields Too Large''),
     (451, ''Unavailable For Legal Reasons''),
     (500, ''Internal Server Error''), (501, ''Not Implemented''), (502, ''Bad Gateway''),
     (503, ''Service Unavailable''), (504, ''Gateway Timeout''),
     (505, ''HTTP Version Not Supported''), (506, ''Variant Also Negotiates''),
     (507, ''Insufficient Storage''), (508, ''Loop Detected''), (510, ''Not Extended''),
     (511, ''Network Authentication Required'')]"

text \<open>\<^verbatim>\<open>http.StatusText\<close>: the text of a known code, the empty string otherwise.\<close>

definition StatusText :: "int \<Rightarrow> string" where
  "StatusText code = (case map_of statusText code of Some s \<Rightarrow> s | None \<Rightarrow> [])"

section \<open>The collaborators and the world\<close>

text \<open>
  The program talks to three collaborators it does not own: the underlying
  \<^verbatim>\<open>Logger\<close>, the underlying \<^verbatim>\<open>http.ResponseWriter\<close> and the request's
  original body. Each is modelled by the calls it has received so far, kept in the
  world, and by its answers, a function of those calls and of the present call.
\<close>

datatype rw_call = UWriteHeader int | UWrite bytes | UFlush

datatype body_call = BRead bytes | BClose

record world =
  sink :: "(int \<times> string) list"
  wire :: "rw_call list"
  hdr :: Header
  body_calls :: "body_call list"

text \<open>The answer of the underlying \<^verbatim>\<open>Logger.Output(calldepth, s)\<close>.\<close>

type_synonym Logger = "(int \<times> string) list \<Rightarrow> int \<Rightarrow> string \<Rightarrow> error option"

text \<open>
  The underlying response writer: the answer of its \<^verbatim>\<open>Write\<close>, and whether its
  dynamic type implements \<^verbatim>\<open>http.Flusher\<close> as well. Its \<^verbatim>\<open>Header()\<close> map is
  \<^const>\<open>hdr\<close> of the world.
\<close>

record http_ResponseWriter =
  Write_answer :: "rw_call list \<Rightarrow> bytes \<Rightarrow> int \<times> error option"
  implements_Flusher :: bool

text \<open>
  The original body. \<^verbatim>\<open>Read(p)\<close> answers with the count, the error and the bytes
  it stored into \<^verbatim>\<open>p\<close> from index 0 on.
\<close>

record io_ReadCloser =
  Read_answer :: "body_call list \<Rightarrow> bytes \<Rightarrow> int \<times> error option \<times> bytes"
  Close_answer :: "body_call list \<Rightarrow> error option"

record http_Request =
  Method :: string
  URL_RequestURI :: string
  Proto :: string
  Header :: Header
  Body :: io_ReadCloser

text \<open>What a handler does to the body and the response writer it was given.\<close>

datatype hop =
    HRead bytes
  | HClose
  | HWrite bytes
  | HWriteHeader int
  | HFlush
  | HHeader "Header \<Rightarrow> Header"

section \<open>MultilineLogger\<close>

record MultilineLogger =
  Logger :: Logger
  handler :: "http_Request \<Rightarrow> hop list"
  redactor :: "(string \<Rightarrow> string) option"
  RequestIDCreator :: "http_Request \<Rightarrow> RequestID"

definition Output :: "MultilineLogger \<Rightarrow> int \<Rightarrow> string \<Rightarrow> world \<Rightarrow> error option \<times> world" where
  "Output l calldepth s w =
     (let s = (case redactor l of Some f \<Rightarrow> f s | None \<Rightarrow> s)
      in (Logger l (sink w) calldepth s, w\<lparr>sink := sink w @ [(calldepth, s)]\<rparr>))"

definition Print :: "MultilineLogger \<Rightarrow> arg list \<Rightarrow> world \<Rightarrow> world" where
  "Print l v w = snd (Output l 2 (Sprint v) w)"

definition Printf :: "MultilineLogger \<Rightarrow> string \<Rightarrow> arg list \<Rightarrow> world \<Rightarrow> world" where
  "Printf l format v w = snd (Output l 2 (Sprintf format v) w)"

definition Println :: "MultilineLogger \<Rightarrow> arg list \<Rightarrow> world \<Rightarrow> world" where
  "Println l v w = snd (Output l 2 (Sprintln v) w)"

section \<open>The wrapped request body\<close>

record multilineLoggerReadCloser =
  rc_ReadCloser :: io_ReadCloser
  rc_MultilineLogger :: MultilineLogger
  rc_requestID :: RequestID

text \<open>The buffer after the underlying read stored \<open>d\<close> into it from index 0 on.\<close>

definition stored :: "bytes \<Rightarrow> bytes \<Rightarrow> bytes" where
  "stored p d = take (length p) (d @ drop (length d) p)"

text \<open>
  \<^verbatim>\<open>Read\<close>. The result is \<^const>\<open>None\<close> when the slice expression \<^verbatim>\<open>p[:n]\<close>
  panics, which it does for \<open>n\<close> above the capacity of \<open>p\<close>; the underlying read
  has happened by then.
\<close>

definition Read :: "multilineLoggerReadCloser \<Rightarrow> bytes \<Rightarrow> world \<Rightarrow> (int \<times> error option) option \<times> world" where
  "Read r p w =
     (case Read_answer (rc_ReadCloser r) (body_calls w) p of (n, err, d) \<Rightarrow>
        (let w1 = w\<lparr>body_calls := body_calls w @ [BRead p]\<rparr>
         in if 0 < n then
              (if n \<le> int (length p) then
                 (Some (n, err),
                  Println (rc_MultilineLogger r)
                    [RID (rc_requestID r), S ''>'', S (take (nat n) (stored p d))] w1)
               else (None, w1))
            else (Some (n, err), w1)))"

text \<open>\<^verbatim>\<open>Close\<close> is the embedded body's own method.\<close>

definition Close :: "multilineLoggerReadCloser \<Rightarrow> world \<Rightarrow> error option \<times> world" where
  "Close r w =
     (Close_answer (rc_ReadCloser r) (body_calls w), w\<lparr>body_calls := body_calls w @ [BClose]\<rparr>)"

section \<open>The wrapped response writer\<close>

text \<open>The embedded \<^verbatim>\<open>http.Flusher\<close> is an interface value; \<^const>\<open>None\<close> is nil.\<close>

record multilineLoggerResponseWriter =
  rw_Flusher :: "http_ResponseWriter option"
  rw_ResponseWriter :: http_ResponseWriter
  rw_MultilineLogger :: MultilineLogger
  rw_request :: http_Request
  rw_requestID :: RequestID
  wroteHeader :: bool

text \<open>
  The two-result type assertion \<^verbatim>\<open>f, ok := x.(http.Flusher)\<close>: it never panics,
  and \<open>f\<close> is nil when \<open>ok\<close> is false.
\<close>

definition assert_Flusher :: "http_ResponseWriter \<Rightarrow> http_ResponseWriter option \<times> bool" where
  "assert_Flusher x = (if implements_Flusher x then (Some x, True) else (None, False))"

text \<open>A call of \<^verbatim>\<open>Flush\<close> on an interface value: on nil it panics (\<^const>\<open>None\<close>).\<close>

definition call_Flush :: "http_ResponseWriter option \<Rightarrow> world \<Rightarrow> world option" where
  "call_Flush f w = (case f of None \<Rightarrow> None | Some x \<Rightarrow> Some (w\<lparr>wire := wire w @ [UFlush]\<rparr>))"

definition Flush :: "multilineLoggerResponseWriter \<Rightarrow> world \<Rightarrow> world option" where
  "Flush w wd =
     (case assert_Flusher (rw_ResponseWriter w) of (f, ok) \<Rightarrow>
        if ok then call_Flush f wd else Some wd)"

definition WriteHeader :: "multilineLoggerResponseWriter \<Rightarrow> int \<Rightarrow> world \<Rightarrow> multilineLoggerResponseWriter \<times> world" where
  "WriteHeader w code wd =
     (let w = w\<lparr>wroteHeader := True\<rparr>;
          wd = Printf (rw_MultilineLogger w) ''%s < %s %d %s''
                 [RID (rw_requestID w), S (Proto (rw_request w)), I code, S (StatusText code)] wd;
          wd = fold (\<lambda>(name, values).
                 fold (\<lambda>value. Printf (rw_MultilineLogger w) ''%s < %s: %s''
                                  [RID (rw_requestID w), S name, S value]) values)
                 (hdr wd) wd;
          wd = Println (rw_MultilineLogger w) [RID (rw_requestID w), S ''<''] wd
      in (w, wd\<lparr>wire := wire wd @ [UWriteHeader code]\<rparr>))"

definition Write :: "multilineLoggerResponseWriter \<Rightarrow> bytes \<Rightarrow> world \<Rightarrow> (int \<times> error option) \<times> multilineLoggerResponseWriter \<times> world" where
  "Write w p wd =
     (case (if \<not> wroteHeader w then WriteHeader w StatusOK wd else (w, wd)) of (w, wd) \<Rightarrow>
        (let wd = (if length p > 0 \<and> CHR 0x0A = p ! (length p - 1)
                   then Println (rw_MultilineLogger w)
                          [RID (rw_requestID w), S ''<'', S (take (length p - 1) p)] wd
                   else Println (rw_MultilineLogger w)
                          [RID (rw_requestID w), S ''<'', S p] wd)
         in (Write_answer (rw_ResponseWriter w) (wire wd) p, w,
             wd\<lparr>wire := wire wd @ [UWrite p]\<rparr>)))"

section \<open>One exchange\<close>

text \<open>What the handler gets back from a call.\<close>

datatype ret = RRead int "error option" | RWrite int "error option" | RClose "error option" | RNone

text \<open>
  The exchange while the handler runs: the wrapped writer, the world, what the handler
  has observed, and whether a panic has ended the handler.
\<close>

record exch =
  ex_rw :: multilineLoggerResponseWriter
  ex_world :: world
  ex_obs :: "ret list"
  ex_panicked :: bool

fun step :: "multilineLoggerReadCloser \<Rightarrow> hop \<Rightarrow> exch \<Rightarrow> exch" where
  "step rc (HRead p) e =
     (case Read rc p (ex_world e) of
        (None, wd) \<Rightarrow> e\<lparr>ex_world := wd, ex_panicked := True\<rparr>
      | (Some (n, err), wd) \<Rightarrow> e\<lparr>ex_world := wd, ex_obs := ex_obs e @ [RRead n err]\<rparr>)"
| "step rc HClose e =
     (case Close rc (ex_world e) of
        (err, wd) \<Rightarrow> e\<lparr>ex_world := wd, ex_obs := ex_obs e @ [RClose err]\<rparr>)"
| "step rc (HWrite p) e =
     (case Write (ex_rw e) p (ex_world e) of
        ((n, err), w, wd) \<Rightarrow> e\<lparr>ex_rw := w, ex_world := wd, ex_obs := ex_obs e @ [RWrite n err]\<rparr>)"
| "step rc (HWriteHeader code) e =
     (case WriteHeader (ex_rw e) code (ex_world e) of
        (w, wd) \<Rightarrow> e\<lparr>ex_rw := w, ex_world := wd, ex_obs := ex_obs e @ [RNone]\<rparr>)"
| "step rc HFlush e =
     (case Flush (ex_rw e) (ex_world e) of
        None \<Rightarrow> e\<lparr>ex_panicked := True\<rparr>
      | Some wd \<Rightarrow> e\<lparr>ex_world := wd, ex_obs := ex_obs e @ [RNone]\<rparr>)"
| "step rc (HHeader f) e =
     e\<lparr>ex_world := (ex_world e)\<lparr>hdr := f (hdr (ex_world e))\<rparr>, ex_obs := ex_obs e @ [RNone]\<rparr>"

text \<open>The handler's calls in order; a panic ends them.\<close>

fun run :: "multilineLoggerReadCloser \<Rightarrow> hop list \<Rightarrow> exch \<Rightarrow> exch" where
  "run rc [] e = e"
| "run rc (h # hs) e = (if ex_panicked e then e else run rc hs (step rc h e))"

definition ServeHTTP :: "MultilineLogger \<Rightarrow> http_ResponseWriter \<Rightarrow> http_Request \<Rightarrow> world \<Rightarrow> exch" where
  "ServeHTTP l w r wd =
     (let requestID = RequestIDCreator l r;
          wd = Printf l ''%s > %s %s %s''
                 [RID requestID, S (Method r), S (URL_RequestURI r), S (Proto r)] wd;
          wd = fold (\<lambda>(key, values).
                 fold (\<lambda>value. Printf l ''%s > %s: %s'' [RID requestID, S key, S value]) values)
                 (Header r) wd;
          wd = Println l [RID requestID, S ''>''] wd;
          body = \<lparr>rc_ReadCloser = Body r, rc_MultilineLogger = l, rc_requestID = requestID\<rparr>
      in run body (handler l r)
           \<lparr>ex_rw = \<lparr>rw_Flusher = None, rw_ResponseWriter = w, rw_MultilineLogger = l,
                     rw_request = r, rw_requestID = requestID, wroteHeader = False\<rparr>,
            ex_world = wd, ex_obs = [], ex_panicked = False\<rparr>)"

section \<open>The log, as the specification describes it\<close>

text \<open>The text the sink receives for a formatted line: the redactor applied, if there is one.\<close>

definition redacted :: "MultilineLogger \<Rightarrow> string \<Rightarrow> string" where
  "redacted l s = (case redactor l of Some f \<Rightarrow> f s | None \<Rightarrow> s)"

text \<open>A chunk without its trailing newline, if it ends in one.\<close>

definition strip_newline :: "bytes \<Rightarrow> bytes" where
  "strip_newline p = (if p \<noteq> [] \<and> last p = CHR 0x0A then butlast p else p)"

text \<open>One line per header value, the values of a name in their order.\<close>

definition header_lines :: "MultilineLogger \<Rightarrow> string \<Rightarrow> Header \<Rightarrow> (int \<times> string) list" where
  "header_lines l pre hs =
     concat (map (\<lambda>(name, values). map (\<lambda>value. (2, redacted l (pre @ name @ '': '' @ value))) values) hs)"

text \<open>The request block: request line, header lines, blank separator.\<close>

definition request_block :: "MultilineLogger \<Rightarrow> http_Request \<Rightarrow> (int \<times> string) list" where
  "request_block l r =
     [(2, redacted l
            (RequestIDCreator l r @ '' > '' @ Method r @ '' '' @ URL_RequestURI r @ '' '' @ Proto r))]
     @ header_lines l (RequestIDCreator l r @ '' > '') (Header r)
     @ [(2, redacted l (RequestIDCreator l r @ '' >'' @ [CHR 0x0A]))]"

text \<open>The response block: response line, header lines, blank separator.\<close>

definition response_block :: "multilineLoggerResponseWriter \<Rightarrow> int \<Rightarrow> Header \<Rightarrow> (int \<times> string) list" where
  "response_block w code hs =
     [(2, redacted (rw_MultilineLogger w)
            (rw_requestID w @ '' < '' @ Proto (rw_request w) @ '' '' @ itoa code @ '' '' @ StatusText code))]
     @ header_lines (rw_MultilineLogger w) (rw_requestID w @ '' < '') hs
     @ [(2, redacted (rw_MultilineLogger w) (rw_requestID w @ '' <'' @ [CHR 0x0A]))]"

text \<open>The line of one response body chunk.\<close>

definition chunk_line :: "multilineLoggerResponseWriter \<Rightarrow> bytes \<Rightarrow> int \<times> string" where
  "chunk_line w p =
     (2, redacted (rw_MultilineLogger w) (rw_requestID w @ '' < '' @ strip_newline p @ [CHR 0x0A]))"

text \<open>The header commits among the calls the underlying writer received.\<close>

fun is_UWriteHeader :: "rw_call \<Rightarrow> bool" where
  "is_UWriteHeader (UWriteHeader code) = True"
| "is_UWriteHeader (UWrite p) = False"
| "is_UWriteHeader UFlush = False"

text \<open>
  The header commits a handler's calls lead to, \<open>c\<close> telling whether one has happened:
  one for each \<^verbatim>\<open>WriteHeader\<close> call, and one for a \<^verbatim>\<open>Write\<close> that no commit precedes.
\<close>

fun commits :: "bool \<Rightarrow> hop list \<Rightarrow> nat" where
  "commits c [] = 0"
| "commits c (HWriteHeader code # hs) = 1 + commits True hs"
| "commits c (HWrite p # hs) = (if c then 0 else 1) + commits True hs"
| "commits c (HRead p # hs) = commits c hs"
| "commits c (HClose # hs) = commits c hs"
| "commits c (HFlush # hs) = commits c hs"
| "commits c (HHeader f # hs) = commits c hs"

text \<open>The world with \<open>f\<close> applied to every line the sink received after its first \<open>k\<close>.\<close>

definition relog :: "(string \<Rightarrow> string) \<Rightarrow> nat \<Rightarrow> world \<Rightarrow> world" where
  "relog f k wd = wd\<lparr>sink := take k (sink wd) @ map (\<lambda>(d, s). (d, f s)) (drop k (sink wd))\<rparr>"

definition relog_exch :: "(string \<Rightarrow> string) \<Rightarrow> nat \<Rightarrow> MultilineLogger \<Rightarrow> exch \<Rightarrow> exch" where
  "relog_exch f k l e =
     e\<lparr>ex_rw := (ex_rw e)\<lparr>rw_MultilineLogger := l\<rparr>, ex_world := relog f k (ex_world e)\<rparr>"

section \<open>Example collaborators\<close>

definition demo_request :: http_Request where
  "demo_request =
     \<lparr>Method = ''GET'', URL_RequestURI = ''/items?x=1'', Proto = ''HTTP/1.1'',
      Header = [(''X-Key'', [''secret''])],
      Body = \<lparr>Read_answer = (\<lambda>h p. (2, Some (Err ''unexpected EOF''), ''pi'')),
               Close_answer = (\<lambda>h. None)\<rparr>\<rparr>"

definition demo_logger :: MultilineLogger where
  "demo_logger =
     \<lparr>Logger = (\<lambda>h d s. Some (Err ''write failed'')),
      handler = (\<lambda>r. [HRead ''xxxx'', HWrite (''pong'' @ [CHR 0x0A])]),
      redactor = None,
      RequestIDCreator = (\<lambda>r. ''id'')\<rparr>"

definition demo_writer :: http_ResponseWriter where
  "demo_writer = \<lparr>Write_answer = (\<lambda>h p. (int (length p), None)), implements_Flusher = False\<rparr>"

definition demo_world :: world where
  "demo_world = \<lparr>sink = [], wire = [], hdr = [(''Content-Type'', [''text/plain''])], body_calls = []\<rparr>"

definition demo_body :: multilineLoggerReadCloser where
  "demo_body =
     \<lparr>rc_ReadCloser = Body demo_request, rc_MultilineLogger = demo_logger, rc_requestID = ''id''\<rparr>"

definition demo_rw :: multilineLoggerResponseWriter where
  "demo_rw =
     \<lparr>rw_Flusher = None, rw_ResponseWriter = demo_writer, rw_MultilineLogger = demo_logger,
      rw_request = demo_request, rw_requestID = ''id'', wroteHeader = False\<rparr>"

definition demo_exch :: exch where
  "demo_exch = \<lparr>ex_rw = demo_rw, ex_world = demo_world, ex_obs = [], ex_panicked = False\<rparr>"

definition eof_body :: multilineLoggerReadCloser where
  "eof_body =
     \<lparr>rc_ReadCloser = \<lparr>Read_answer = (\<lambda>h p. (0, Some (Err ''EOF''), [])), Close_answer = (\<lambda>h. None)\<rparr>,
      rc_MultilineLogger = demo_logger, rc_requestID = ''id''\<rparr>"

section \<open>What each operation does to the world\<close>

lemmas demo_defs = demo_request_def demo_logger_def demo_writer_def demo_world_def demo_body_def
  demo_rw_def demo_exch_def eof_body_def

lemmas text_defs = response_block_def header_lines_def chunk_line_def strip_newline_def redacted_def
  itoa_def nat_digits.simps StatusText_def statusText_def

lemma extra_Nil [simp]: "extra [] = []"
  by (simp add: extra_def)

lemma Output_eq:
  "Output l d s w = (Logger l (sink w) d (redacted l s), w\<lparr>sink := sink w @ [(d, redacted l s)]\<rparr>)"
  by (simp add: Output_def redacted_def Let_def)

lemma Printf_eq: "Printf l format v w = w\<lparr>sink := sink w @ [(2, redacted l (Sprintf format v))]\<rparr>"
  by (simp add: Printf_def Output_eq)

lemma Println_eq: "Println l v w = w\<lparr>sink := sink w @ [(2, redacted l (Sprintln v))]\<rparr>"
  by (simp add: Println_def Output_eq)

lemma Print_eq: "Print l v w = w\<lparr>sink := sink w @ [(2, redacted l (Sprint v))]\<rparr>"
  by (simp add: Print_def Output_eq)

lemma fold_values:
  "fold (\<lambda>v. Printf l format (args v)) vs w =
   w\<lparr>sink := sink w @ map (\<lambda>v. (2, redacted l (Sprintf format (args v)))) vs\<rparr>"
  by (induction vs arbitrary: w) (simp_all add: Printf_eq)

lemma fold_header:
  "fold (\<lambda>(name, values). fold (\<lambda>value. Printf l format (args name value)) values) hs w =
   w\<lparr>sink := sink w @
        concat (map (\<lambda>(name, values).
                  map (\<lambda>value. (2, redacted l (Sprintf format (args name value)))) values) hs)\<rparr>"
  by (induction hs arbitrary: w) (simp_all add: fold_values split: prod.splits)

lemma WriteHeader_eq:
  "WriteHeader w code wd =
     (w\<lparr>wroteHeader := True\<rparr>,
      wd\<lparr>sink := sink wd @ response_block w code (hdr wd), wire := wire wd @ [UWriteHeader code]\<rparr>)"
  by (simp add: WriteHeader_def Let_def Printf_eq Println_eq
      fold_header [where args = "\<lambda>name value. [RID (rw_requestID w), S name, S value]"]
      response_block_def header_lines_def Sprintln_def)

lemma strip_newline_eq:
  "(if length p > 0 \<and> CHR 0x0A = p ! (length p - 1) then take (length p - 1) p else p) = strip_newline p"
  by (cases p rule: rev_cases) (simp_all add: strip_newline_def)

lemma Write_eq:
  "Write w p wd =
     (Write_answer (rw_ResponseWriter w)
        (wire wd @ (if wroteHeader w then [] else [UWriteHeader 200])) p,
      w\<lparr>wroteHeader := True\<rparr>,
      wd\<lparr>sink := sink wd @ (if wroteHeader w then [] else response_block w 200 (hdr wd)) @ [chunk_line w p],
         wire := wire wd @ (if wroteHeader w then [] else [UWriteHeader 200]) @ [UWrite p]\<rparr>)"
  apply (cases p rule: rev_cases)
   apply (simp_all add: Write_def WriteHeader_eq StatusOK_def Println_eq Sprintln_def chunk_line_def strip_newline_def Let_def response_block_def)
  done

lemma response_block_wroteHeader [simp]:
  "response_block (w\<lparr>wroteHeader := b\<rparr>) = response_block w"
  by (simp add: response_block_def fun_eq_iff)

lemma chunk_line_wroteHeader [simp]:
  "chunk_line (w\<lparr>wroteHeader := b\<rparr>) = chunk_line w"
  by (simp add: chunk_line_def fun_eq_iff)

lemma Flush_eq:
  "Flush w wd = Some (if implements_Flusher (rw_ResponseWriter w) then wd\<lparr>wire := wire wd @ [UFlush]\<rparr> else wd)"
  by (simp add: Flush_def assert_Flusher_def call_Flush_def)

lemma run_panicked: "ex_panicked e \<Longrightarrow> run rc hs e = e"
  by (cases hs) simp_all

lemma run_append: "run rc (xs @ ys) e = run rc ys (run rc xs e)"
  by (induction xs arbitrary: e) (simp_all add: run_panicked)

lemma step_panicked_mono: "ex_panicked e \<Longrightarrow> ex_panicked (step rc h e)"
  by (cases h) (simp_all add: Write_eq WriteHeader_eq Flush_eq Close_def split: prod.splits option.splits)

lemma run_panicked_mono: "ex_panicked e \<Longrightarrow> ex_panicked (run rc hs e)"
  by (simp add: run_panicked)

lemma step_HWrite:
  "step rc (HWrite p) e =
     e\<lparr>ex_rw := (ex_rw e)\<lparr>wroteHeader := True\<rparr>,
       ex_world := (ex_world e)
         \<lparr>sink := sink (ex_world e)
             @ (if wroteHeader (ex_rw e) then [] else response_block (ex_rw e) 200 (hdr (ex_world e)))
             @ [chunk_line (ex_rw e) p],
          wire := wire (ex_world e)
             @ (if wroteHeader (ex_rw e) then [] else [UWriteHeader 200]) @ [UWrite p]\<rparr>,
       ex_obs := ex_obs e @
         [RWrite (fst (Write_answer (rw_ResponseWriter (ex_rw e))
                    (wire (ex_world e) @ (if wroteHeader (ex_rw e) then [] else [UWriteHeader 200])) p))
                 (snd (Write_answer (rw_ResponseWriter (ex_rw e))
                    (wire (ex_world e) @ (if wroteHeader (ex_rw e) then [] else [UWriteHeader 200])) p))]\<rparr>"
  by (simp add: Write_eq split: prod.splits)

lemma step_HWriteHeader:
  "step rc (HWriteHeader code) e =
     e\<lparr>ex_rw := (ex_rw e)\<lparr>wroteHeader := True\<rparr>,
       ex_world := (ex_world e)
         \<lparr>sink := sink (ex_world e) @ response_block (ex_rw e) code (hdr (ex_world e)),
          wire := wire (ex_world e) @ [UWriteHeader code]\<rparr>,
       ex_obs := ex_obs e @ [RNone]\<rparr>"
  by (simp add: WriteHeader_eq)

lemma step_HFlush:
  "step rc HFlush e =
     e\<lparr>ex_world := (if implements_Flusher (rw_ResponseWriter (ex_rw e))
                      then (ex_world e)\<lparr>wire := wire (ex_world e) @ [UFlush]\<rparr> else ex_world e),
       ex_obs := ex_obs e @ [RNone]\<rparr>"
  by (simp add: Flush_eq)

text \<open>Every call appends to the log; a call that commits the headers appends a block first.\<close>

lemma Read_sink: "\<exists>X. sink (snd (Read rc p wd)) = sink wd @ X"
  by (simp add: Read_def Println_eq Let_def split: prod.splits)

lemma step_sink:
  "\<exists>X b. sink (ex_world (step rc h e)) = sink (ex_world e) @ X \<and>
         ex_rw (step rc h e) = (ex_rw e)\<lparr>wroteHeader := b\<rparr> \<and>
         (wroteHeader (ex_rw e) \<longrightarrow> b) \<and>
         (b \<and> \<not> wroteHeader (ex_rw e) \<longrightarrow> (\<exists>code hs Y. X = response_block (ex_rw e) code hs @ Y))"
proof (cases h)
  case (HRead p)
  obtain X where X: "sink (snd (Read rc p (ex_world e))) = sink (ex_world e) @ X"
    using Read_sink by blast
  have "ex_rw (step rc h e) = (ex_rw e)\<lparr>wroteHeader := wroteHeader (ex_rw e)\<rparr>"
    using HRead by (simp split: prod.splits option.splits)
  moreover have "sink (ex_world (step rc h e)) = sink (ex_world e) @ X"
    using HRead X by (auto split: prod.splits option.splits)
  ultimately show ?thesis by blast
next
  case HClose
  have "sink (ex_world (step rc h e)) = sink (ex_world e) @ []"
    "ex_rw (step rc h e) = (ex_rw e)\<lparr>wroteHeader := wroteHeader (ex_rw e)\<rparr>"
    using HClose by (simp_all add: Close_def)
  then show ?thesis by blast
next
  case (HWrite p)
  show ?thesis
  proof (cases "wroteHeader (ex_rw e)")
    case True
    have "sink (ex_world (step rc h e)) = sink (ex_world e) @ [chunk_line (ex_rw e) p]"
      "ex_rw (step rc h e) = (ex_rw e)\<lparr>wroteHeader := True\<rparr>"
      using HWrite True by (simp_all add: step_HWrite del: step.simps)
    with True show ?thesis by blast
  next
    case False
    have "sink (ex_world (step rc h e)) =
            sink (ex_world e) @ (response_block (ex_rw e) 200 (hdr (ex_world e)) @ [chunk_line (ex_rw e) p])"
      "ex_rw (step rc h e) = (ex_rw e)\<lparr>wroteHeader := True\<rparr>"
      using HWrite False by (simp_all add: step_HWrite del: step.simps)
    then show ?thesis by blast
  qed
next
  case (HWriteHeader code)
  have "sink (ex_world (step rc h e)) =
          sink (ex_world e) @ (response_block (ex_rw e) code (hdr (ex_world e)) @ [])"
    "ex_rw (step rc h e) = (ex_rw e)\<lparr>wroteHeader := True\<rparr>"
    using HWriteHeader by (simp_all add: WriteHeader_eq)
  then show ?thesis by blast
next
  case HFlush
  have "sink (ex_world (step rc h e)) = sink (ex_world e) @ []"
    "ex_rw (step rc h e) = (ex_rw e)\<lparr>wroteHeader := wroteHeader (ex_rw e)\<rparr>"
    using HFlush by (simp_all add: Flush_eq)
  then show ?thesis by blast
next
  case (HHeader f)
  have "sink (ex_world (step rc h e)) = sink (ex_world e) @ []"
    "ex_rw (step rc h e) = (ex_rw e)\<lparr>wroteHeader := wroteHeader (ex_rw e)\<rparr>"
    using HHeader by simp_all
  then show ?thesis by blast
qed

lemma run_sink:
  "\<exists>X b. sink (ex_world (run rc hs e)) = sink (ex_world e) @ X \<and>
         ex_rw (run rc hs e) = (ex_rw e)\<lparr>wroteHeader := b\<rparr> \<and>
         (wroteHeader (ex_rw e) \<longrightarrow> b) \<and>
         (b \<and> \<not> wroteHeader (ex_rw e) \<longrightarrow> (\<exists>A code hs B. X = A @ response_block (ex_rw e) code hs @ B))"
proof (induction hs arbitrary: e)
  case Nil
  have "sink (ex_world (run rc [] e)) = sink (ex_world e) @ []"
    "ex_rw (run rc [] e) = (ex_rw e)\<lparr>wroteHeader := wroteHeader (ex_rw e)\<rparr>"
    by simp_all
  then show ?case by blast
next
  case (Cons h hs)
  show ?case
  proof (cases "ex_panicked e")
    case True
    have "sink (ex_world (run rc (h # hs) e)) = sink (ex_world e) @ []"
      "ex_rw (run rc (h # hs) e) = (ex_rw e)\<lparr>wroteHeader := wroteHeader (ex_rw e)\<rparr>"
      using True by simp_all
    then show ?thesis by blast
  next
    case False
    let ?e1 = "step rc h e"
    obtain X1 b1 where s1: "sink (ex_world ?e1) = sink (ex_world e) @ X1"
      and r1: "ex_rw ?e1 = (ex_rw e)\<lparr>wroteHeader := b1\<rparr>"
      and m1: "wroteHeader (ex_rw e) \<longrightarrow> b1"
      and c1: "b1 \<and> \<not> wroteHeader (ex_rw e) \<longrightarrow> (\<exists>code hs Y. X1 = response_block (ex_rw e) code hs @ Y)"
      using step_sink [of rc h e] by blast
    obtain X2 b2 where s2: "sink (ex_world (run rc hs ?e1)) = sink (ex_world ?e1) @ X2"
      and r2: "ex_rw (run rc hs ?e1) = (ex_rw ?e1)\<lparr>wroteHeader := b2\<rparr>"
      and m2: "wroteHeader (ex_rw ?e1) \<longrightarrow> b2"
      and c2: "b2 \<and> \<not> wroteHeader (ex_rw ?e1) \<longrightarrow>
                 (\<exists>A code hs B. X2 = A @ response_block (ex_rw ?e1) code hs @ B)"
      using Cons.IH [of ?e1] by blast
    have run: "run rc (h # hs) e = run rc hs ?e1" using False by simp
    have a: "sink (ex_world (run rc (h # hs) e)) = sink (ex_world e) @ (X1 @ X2)"
      using run s1 s2 by simp
    have b: "ex_rw (run rc (h # hs) e) = (ex_rw e)\<lparr>wroteHeader := b2\<rparr>"
      using run r1 r2 by simp
    have c: "wroteHeader (ex_rw e) \<longrightarrow> b2" using m1 m2 r1 by simp
    have d: "\<exists>A code hs B. X1 @ X2 = A @ response_block (ex_rw e) code hs @ B"
      if hb: "b2" and hw: "\<not> wroteHeader (ex_rw e)"
    proof (cases b1)
      case True
      then obtain code hs Y where "X1 = response_block (ex_rw e) code hs @ Y"
        using c1 hw by blast
      then have "X1 @ X2 = [] @ response_block (ex_rw e) code hs @ (Y @ X2)" by simp
      then show ?thesis by blast
    next
      case False
      then have "\<not> wroteHeader (ex_rw ?e1)" using r1 by simp
      then obtain A code hs B where "X2 = A @ response_block (ex_rw ?e1) code hs @ B"
        using c2 hb by blast
      then have "X1 @ X2 = (X1 @ A) @ response_block (ex_rw e) code hs @ B"
        using r1 by simp
      then show ?thesis by blast
    qed
    show ?thesis using a b c d by blast
  qed
qed

lemma Read_eq:
  "Read r p w =
     (let a = Read_answer (rc_ReadCloser r) (body_calls w) p; n = fst a
      in (if 0 < n \<and> \<not> n \<le> int (length p) then None else Some (n, fst (snd a)),
          w\<lparr>sink := sink w @
                (if 0 < n \<and> n \<le> int (length p)
                 then [(2, redacted (rc_MultilineLogger r)
                            (rc_requestID r @ '' > '' @ take (nat n) (stored p (snd (snd a))) @ [CHR 0x0A]))]
                 else []),
            body_calls := body_calls w @ [BRead p]\<rparr>))"
  by (simp add: Read_def Println_eq Sprintln_def Let_def split: prod.splits)

lemma step_HRead:
  "step rc (HRead p) e =
     (let a = Read_answer (rc_ReadCloser rc) (body_calls (ex_world e)) p; n = fst a;
          wd = (ex_world e)\<lparr>sink := sink (ex_world e) @
                (if 0 < n \<and> n \<le> int (length p)
                 then [(2, redacted (rc_MultilineLogger rc)
                            (rc_requestID rc @ '' > '' @ take (nat n) (stored p (snd (snd a))) @ [CHR 0x0A]))]
                 else []),
            body_calls := body_calls (ex_world e) @ [BRead p]\<rparr>
      in if 0 < n \<and> \<not> n \<le> int (length p) then e\<lparr>ex_world := wd, ex_panicked := True\<rparr>
         else e\<lparr>ex_world := wd, ex_obs := ex_obs e @ [RRead n (fst (snd a))]\<rparr>)"
  by (simp add: Read_eq Let_def)

lemma step_HClose:
  "step rc HClose e =
     e\<lparr>ex_world := (ex_world e)\<lparr>body_calls := body_calls (ex_world e) @ [BClose]\<rparr>,
       ex_obs := ex_obs e @ [RClose (Close_answer (rc_ReadCloser rc) (body_calls (ex_world e)))]\<rparr>"
  by (simp add: Close_def)

lemma ServeHTTP_eq:
  "ServeHTTP l w r wd =
     run \<lparr>rc_ReadCloser = Body r, rc_MultilineLogger = l, rc_requestID = RequestIDCreator l r\<rparr>
       (handler l r)
       \<lparr>ex_rw = \<lparr>rw_Flusher = None, rw_ResponseWriter = w, rw_MultilineLogger = l,
                 rw_request = r, rw_requestID = RequestIDCreator l r, wroteHeader = False\<rparr>,
        ex_world = wd\<lparr>sink := sink wd @ request_block l r\<rparr>,
        ex_obs = [], ex_panicked = False\<rparr>"
  by (simp add: ServeHTTP_def Let_def Printf_eq Println_eq Sprintln_def header_lines_def request_block_def
      fold_header [where args = "\<lambda>name v. [RID (RequestIDCreator l r), S name, S v]"])

section \<open>Two loggers that differ in what they do to a line\<close>

lemma relog_id: "relog (\<lambda>s. s) k wd = wd"
  by (simp add: relog_def case_prod_unfold)

lemma relog_fields [simp]:
  "wire (relog f k wd) = wire wd" "hdr (relog f k wd) = hdr wd"
  "body_calls (relog f k wd) = body_calls wd"
  by (simp_all add: relog_def)

lemma relog_append:
  "k \<le> length (sink wd) \<Longrightarrow>
   relog f k (wd\<lparr>sink := sink wd @ X\<rparr>) =
   (relog f k wd)\<lparr>sink := sink (relog f k wd) @ map (\<lambda>(d, s). (d, f s)) X\<rparr>"
  by (simp add: relog_def)

lemma relog_wire: "relog f k (wd\<lparr>wire := x\<rparr>) = (relog f k wd)\<lparr>wire := x\<rparr>"
  by (simp add: relog_def)

lemma relog_hdr: "relog f k (wd\<lparr>hdr := x\<rparr>) = (relog f k wd)\<lparr>hdr := x\<rparr>"
  by (simp add: relog_def)

lemma relog_body_calls: "relog f k (wd\<lparr>body_calls := x\<rparr>) = (relog f k wd)\<lparr>body_calls := x\<rparr>"
  by (simp add: relog_def)

lemma relog_length [simp]: "length (sink (relog f k wd)) = length (sink wd)"
  by (simp add: relog_def)

lemma header_lines_relog:
  "\<forall>s. redacted l' s = f (redacted l s) \<Longrightarrow>
   header_lines l' pre hs = map (\<lambda>(d, s). (d, f s)) (header_lines l pre hs)"
  by (induction hs) (simp_all add: header_lines_def case_prod_unfold)

lemma response_block_relog:
  "\<forall>s. redacted l' s = f (redacted (rw_MultilineLogger w) s) \<Longrightarrow>
   response_block (w\<lparr>rw_MultilineLogger := l'\<rparr>) code hs =
     map (\<lambda>(d, s). (d, f s)) (response_block w code hs)"
  by (simp add: response_block_def header_lines_relog [where l = "rw_MultilineLogger w"])

lemma chunk_line_relog:
  "\<forall>s. redacted l' s = f (redacted (rw_MultilineLogger w) s) \<Longrightarrow>
   chunk_line (w\<lparr>rw_MultilineLogger := l'\<rparr>) p = (\<lambda>(d, s). (d, f s)) (chunk_line w p)"
  by (simp add: chunk_line_def)

lemma step_relog:
  assumes red: "\<forall>s. redacted l' s = f (redacted l s)"
    and l: "rw_MultilineLogger (ex_rw e) = l" "rc_MultilineLogger rc = l"
    and k: "k \<le> length (sink (ex_world e))"
  shows "step (rc\<lparr>rc_MultilineLogger := l'\<rparr>) h (relog_exch f k l' e) = relog_exch f k l' (step rc h e)"
proof (cases h)
  case (HRead p)
  show ?thesis
    unfolding HRead step_HRead
    using red l k
    by (simp add: relog_exch_def Let_def relog_append relog_body_calls)
next
  case HClose
  show ?thesis
    unfolding HClose step_HClose
    by (simp add: relog_exch_def relog_body_calls)
next
  case (HWrite p)
  have b: "response_block ((ex_rw e)\<lparr>rw_MultilineLogger := l'\<rparr>) 200 (hdr (ex_world e)) =
      map (\<lambda>(d, s). (d, f s)) (response_block (ex_rw e) 200 (hdr (ex_world e)))"
    using red l by (simp add: response_block_relog)
  have c: "chunk_line ((ex_rw e)\<lparr>rw_MultilineLogger := l'\<rparr>) p = (\<lambda>(d, s). (d, f s)) (chunk_line (ex_rw e) p)"
    using red l by (simp add: chunk_line_relog)
  show ?thesis
    unfolding HWrite step_HWrite
    using k by (simp add: relog_exch_def relog_append relog_wire b c)
next
  case (HWriteHeader code)
  have b: "response_block ((ex_rw e)\<lparr>rw_MultilineLogger := l'\<rparr>) code (hdr (ex_world e)) =
      map (\<lambda>(d, s). (d, f s)) (response_block (ex_rw e) code (hdr (ex_world e)))"
    using red l by (simp add: response_block_relog)
  show ?thesis
    unfolding HWriteHeader step_HWriteHeader
    using k by (simp add: relog_exch_def relog_append relog_wire b)
next
  case HFlush
  show ?thesis
    unfolding HFlush step_HFlush
    by (simp add: relog_exch_def relog_wire)
next
  case (HHeader g)
  show ?thesis
    unfolding HHeader
    by (simp add: relog_exch_def relog_hdr)
qed

lemma step_keeps:
  "rw_MultilineLogger (ex_rw (step rc h e)) = rw_MultilineLogger (ex_rw e) \<and>
   length (sink (ex_world e)) \<le> length (sink (ex_world (step rc h e)))"
  using step_sink [of rc h e] by auto

lemma run_relog:
  assumes red: "\<forall>s. redacted l' s = f (redacted l s)"
    and rc: "rc_MultilineLogger rc = l"
  shows "rw_MultilineLogger (ex_rw e) = l \<Longrightarrow> k \<le> length (sink (ex_world e)) \<Longrightarrow>
    run (rc\<lparr>rc_MultilineLogger := l'\<rparr>) hs (relog_exch f k l' e) = relog_exch f k l' (run rc hs e)"
proof (induction hs arbitrary: e)
  case Nil
  then show ?case by simp
next
  case (Cons h hs)
  have p: "ex_panicked (relog_exch f k l' e) = ex_panicked e"
    by (simp add: relog_exch_def)
  show ?case
  proof (cases "ex_panicked e")
    case True
    then show ?thesis using p by simp
  next
    case False
    have s: "step (rc\<lparr>rc_MultilineLogger := l'\<rparr>) h (relog_exch f k l' e) = relog_exch f k l' (step rc h e)"
      using step_relog [OF red Cons.prems(1) rc Cons.prems(2)] .
    have "run (rc\<lparr>rc_MultilineLogger := l'\<rparr>) hs (relog_exch f k l' (step rc h e))
            = relog_exch f k l' (run rc hs (step rc h e))"
      using Cons.IH [of "step rc h e"] step_keeps [of rc h e] Cons.prems by simp
    then show ?thesis using False p s by simp
  qed
qed

lemma ServeHTTP_relog:
  assumes red: "\<forall>s. redacted l' s = f (redacted l s)"
    and h: "handler l' = handler l" and i: "RequestIDCreator l' = RequestIDCreator l"
  shows "ServeHTTP l' w r wd = relog_exch f (length (sink wd)) l' (ServeHTTP l w r wd)"
proof -
  let ?rc = "\<lparr>rc_ReadCloser = Body r, rc_MultilineLogger = l, rc_requestID = RequestIDCreator l r\<rparr>"
  let ?L = "request_block l r"
  let ?e = "\<lparr>ex_rw = \<lparr>rw_Flusher = None, rw_ResponseWriter = w, rw_MultilineLogger = l,
                 rw_request = r, rw_requestID = RequestIDCreator l r, wroteHeader = False\<rparr>,
        ex_world = wd\<lparr>sink := sink wd @ ?L\<rparr>, ex_obs = [], ex_panicked = False\<rparr>"
  have hl: "header_lines l' (RequestIDCreator l r @ '' > '') (Header r) =
      map (\<lambda>(d, s). (d, f s)) (header_lines l (RequestIDCreator l r @ '' > '') (Header r))"
    using red by (rule header_lines_relog)
  have a: "ServeHTTP l' w r wd =
      run (?rc\<lparr>rc_MultilineLogger := l'\<rparr>) (handler l r) (relog_exch f (length (sink wd)) l' ?e)"
    using red by (simp add: ServeHTTP_eq h i hl relog_exch_def relog_def request_block_def)
  have b: "run (?rc\<lparr>rc_MultilineLogger := l'\<rparr>) (handler l r) (relog_exch f (length (sink wd)) l' ?e)
      = relog_exch f (length (sink wd)) l' (run ?rc (handler l r) ?e)"
    by (rule run_relog [OF red]) simp_all
  show ?thesis using a b by (simp add: ServeHTTP_eq)
qed

lemma commits_count:
  "\<not> ex_panicked (run rc hs e) \<Longrightarrow>
   length (filter is_UWriteHeader (wire (ex_world (run rc hs e)))) =
   length (filter is_UWriteHeader (wire (ex_world e))) + commits (wroteHeader (ex_rw e)) hs"
proof (induction hs arbitrary: e)
  case Nil
  then show ?case by simp
next
  case (Cons h hs)
  have np: "\<not> ex_panicked e" using Cons.prems run_panicked_mono by blast
  then have run: "run rc (h # hs) e = run rc hs (step rc h e)" by simp
  have IH: "length (filter is_UWriteHeader (wire (ex_world (run rc hs (step rc h e))))) =
      length (filter is_UWriteHeader (wire (ex_world (step rc h e))))
        + commits (wroteHeader (ex_rw (step rc h e))) hs"
    using Cons.IH [of "step rc h e"] Cons.prems run by simp
  have st: "length (filter is_UWriteHeader (wire (ex_world (step rc h e))))
        + commits (wroteHeader (ex_rw (step rc h e))) hs =
      length (filter is_UWriteHeader (wire (ex_world e))) + commits (wroteHeader (ex_rw e)) (h # hs)"
    by (cases h)
      (simp_all add: step_HWrite step_HWriteHeader step_HFlush Close_def Read_def Println_eq Let_def
        del: step.simps(3,4,5) split: prod.splits option.splits)
  show ?case using run IH st by simp
qed

section \<open>The claims\<close>

text \<open>
  C1 (as amended). Every call of \<^verbatim>\<open>WriteHeader\<close> emits one response block and is
  forwarded, whether or not the headers were committed before, so \<open>k\<close> calls emit
  \<open>k\<close> blocks. \<^verbatim>\<open>Write\<close> commits by itself only while \<^const>\<open>wroteHeader\<close> is unset:
  on a writer that has committed it emits its chunk line and no block. In an exchange
  the commits are one for each \<^verbatim>\<open>WriteHeader\<close> call, and one more when a
  \<^verbatim>\<open>Write\<close> comes before every such call.
\<close>

theorem header_block_per_commit:
  "snd (WriteHeader w code wd) =
     wd\<lparr>sink := sink wd @ response_block w code (hdr wd), wire := wire wd @ [UWriteHeader code]\<rparr>
   \<and> (wroteHeader w \<longrightarrow>
        snd (snd (Write w p wd)) = wd\<lparr>sink := sink wd @ [chunk_line w p], wire := wire wd @ [UWrite p]\<rparr>)
   \<and> (\<not> ex_panicked (run rc hs e) \<longrightarrow>
        length (filter is_UWriteHeader (wire (ex_world (run rc hs e)))) =
        length (filter is_UWriteHeader (wire (ex_world e))) + commits (wroteHeader (ex_rw e)) hs)"
  by (simp add: WriteHeader_eq Write_eq commits_count)

theorem header_block_per_commit_witness:
  "wroteHeader (demo_rw\<lparr>wroteHeader := True\<rparr>)
   \<and> snd (snd (Write (demo_rw\<lparr>wroteHeader := True\<rparr>) ''pong'' demo_world)) =
       demo_world\<lparr>sink := [(2, ''id < pong'' @ [CHR 0x0A])], wire := [UWrite ''pong'']\<rparr>
   \<and> \<not> ex_panicked (run demo_body [HWrite ''a'', HWriteHeader 404, HWriteHeader 200] demo_exch)
   \<and> length (filter is_UWriteHeader
        (wire (ex_world (run demo_body [HWrite ''a'', HWriteHeader 404, HWriteHeader 200] demo_exch)))) = 3"
proof -
  have h1: "wroteHeader (demo_rw\<lparr>wroteHeader := True\<rparr>)" by simp
  have h2: "\<not> ex_panicked (run demo_body [HWrite ''a'', HWriteHeader 404, HWriteHeader 200] demo_exch)"
    by (simp add: demo_exch_def step_HWrite step_HWriteHeader del: step.simps)
  have c: "commits (wroteHeader (ex_rw demo_exch)) [HWrite ''a'', HWriteHeader 404, HWriteHeader 200] = 3"
    "wire (ex_world demo_exch) = []" "sink demo_world = []" "wire demo_world = []"
    "chunk_line (demo_rw\<lparr>wroteHeader := True\<rparr>) ''pong'' = (2, ''id < pong'' @ [CHR 0x0A])"
    by (simp_all add: demo_defs text_defs)
  show ?thesis
    using h1 h2 c
      header_block_per_commit [of "demo_rw\<lparr>wroteHeader := True\<rparr>" 200 demo_world "''pong''" demo_body
        "[HWrite ''a'', HWriteHeader 404, HWriteHeader 200]" demo_exch]
    by simp
qed

text \<open>
  C1 as stated fails: a handler that calls \<^verbatim>\<open>WriteHeader(200)\<close> twice gets the
  response block in the log twice.
\<close>

theorem WriteHeader_twice_emits_two_blocks:
  "sink (ex_world (run demo_body [HWriteHeader 200, HWriteHeader 200] demo_exch)) =
     [(2, ''id < HTTP/1.1 200 OK''), (2, ''id < Content-Type: text/plain''), (2, ''id <'' @ [CHR 0x0A]),
      (2, ''id < HTTP/1.1 200 OK''), (2, ''id < Content-Type: text/plain''), (2, ''id <'' @ [CHR 0x0A])]"
  by (simp add: demo_defs step_HWriteHeader text_defs del: step.simps)

text \<open>
  C2 (as amended). A read of the wrapped body that transfers no byte leaves the log as
  it is. A \<^verbatim>\<open>Write\<close> of an empty chunk still logs one body-chunk line, with an
  empty payload, after the response block if the headers were not committed.
\<close>

theorem zero_byte_read_silent_write_logged:
  "(fst (Read_answer (rc_ReadCloser r) (body_calls wd) p) \<le> 0 \<longrightarrow>
      sink (snd (Read r p wd)) = sink wd)
   \<and> sink (snd (snd (Write w [] wd))) =
       sink wd @ (if wroteHeader w then [] else response_block w 200 (hdr wd))
         @ [(2, case redactor (rw_MultilineLogger w) of
                  None \<Rightarrow> rw_requestID w @ '' < '' @ [CHR 0x0A]
                | Some f \<Rightarrow> f (rw_requestID w @ '' < '' @ [CHR 0x0A]))]"
  by (simp add: Read_eq Write_eq Let_def chunk_line_def strip_newline_def redacted_def
      split: option.splits)

theorem zero_byte_read_silent_write_logged_witness:
  "fst (Read_answer (rc_ReadCloser eof_body) (body_calls demo_world) ''xxxx'') \<le> 0
   \<and> sink (snd (Read eof_body ''xxxx'' demo_world)) = sink demo_world
   \<and> sink (snd (snd (Write demo_rw [] demo_world))) =
       [(2, ''id < HTTP/1.1 200 OK''), (2, ''id < Content-Type: text/plain''),
        (2, ''id <'' @ [CHR 0x0A]), (2, ''id < '' @ [CHR 0x0A])]"
proof -
  have h: "fst (Read_answer (rc_ReadCloser eof_body) (body_calls demo_world) ''xxxx'') \<le> 0"
    by (simp add: eof_body_def)
  have b: "response_block demo_rw 200 (hdr demo_world) =
      [(2, ''id < HTTP/1.1 200 OK''), (2, ''id < Content-Type: text/plain''), (2, ''id <'' @ [CHR 0x0A])]"
    "sink demo_world = []" "\<not> wroteHeader demo_rw" "redactor (rw_MultilineLogger demo_rw) = None"
    "rw_requestID demo_rw = ''id''"
    by (simp_all add: demo_defs text_defs)
  show ?thesis
    using h b zero_byte_read_silent_write_logged [of eof_body demo_world "''xxxx''" demo_rw] by simp
qed

text \<open>
  C2 as stated fails: the \<^verbatim>\<open>Write\<close> of an empty chunk, which transfers no byte,
  logs a line.
\<close>

theorem empty_Write_logs_a_line:
  "fst (Write (demo_rw\<lparr>wroteHeader := True\<rparr>) [] demo_world) = (0, None)
   \<and> sink (snd (snd (Write (demo_rw\<lparr>wroteHeader := True\<rparr>) [] demo_world))) =
       [(2, ''id < '' @ [CHR 0x0A])]"
  by (simp add: Write_eq demo_defs text_defs)

text \<open>
  C3. The last line a \<^verbatim>\<open>Write\<close> logs is its chunk without one trailing newline,
  the last call the underlying writer receives is \<^verbatim>\<open>Write\<close> of the chunk as it
  was given, and the result is the underlying writer's answer to that call.
\<close>

theorem Write_logs_stripped_forwards_original:
  "last (sink (snd (snd (Write w p wd)))) =
     (2, case redactor (rw_MultilineLogger w) of
           None \<Rightarrow> rw_requestID w @ '' < '' @ (if p \<noteq> [] \<and> last p = CHR 0x0A then butlast p else p) @ [CHR 0x0A]
         | Some f \<Rightarrow> f (rw_requestID w @ '' < '' @ (if p \<noteq> [] \<and> last p = CHR 0x0A then butlast p else p) @ [CHR 0x0A]))
   \<and> last (wire (snd (snd (Write w p wd)))) = UWrite p
   \<and> fst (Write w p wd) = Write_answer (rw_ResponseWriter w) (butlast (wire (snd (snd (Write w p wd))))) p"
  by (simp add: Write_eq chunk_line_def strip_newline_def redacted_def butlast_append split: option.splits)

text \<open>
  C4. On an exchange that starts with the headers uncommitted, as \<^const>\<open>ServeHTTP\<close>
  starts it, the log holds a response block of this exchange before the chunk line of
  any \<^verbatim>\<open>Write\<close> the handler reaches.
\<close>

theorem header_block_before_chunk_line:
  assumes fresh: "\<not> wroteHeader (ex_rw e)"
    and nopanic: "\<not> ex_panicked (run rc pre e)"
  shows "\<exists>A code hs B C.
           sink (ex_world (run rc (pre @ HWrite p # post) e)) =
             sink (ex_world e) @ A @ response_block (ex_rw e) code hs @ B
               @ [chunk_line (ex_rw e) p] @ C"
proof -
  let ?e1 = "run rc pre e"
  let ?e2 = "step rc (HWrite p) ?e1"
  obtain X1 b1 where s1: "sink (ex_world ?e1) = sink (ex_world e) @ X1"
    and r1: "ex_rw ?e1 = (ex_rw e)\<lparr>wroteHeader := b1\<rparr>"
    and c1: "b1 \<and> \<not> wroteHeader (ex_rw e) \<longrightarrow>
               (\<exists>A code hs B. X1 = A @ response_block (ex_rw e) code hs @ B)"
    using run_sink [of rc pre e] by blast
  obtain X3 where s3: "sink (ex_world (run rc post ?e2)) = sink (ex_world ?e2) @ X3"
    using run_sink [of rc post ?e2] by blast
  have whole: "run rc (pre @ HWrite p # post) e = run rc post ?e2"
    using nopanic by (simp add: run_append)
  have s2: "sink (ex_world ?e2) =
      sink (ex_world ?e1) @ (if b1 then [] else response_block (ex_rw e) 200 (hdr (ex_world ?e1)))
        @ [chunk_line (ex_rw e) p]"
    using r1 by (simp add: step_HWrite del: step.simps)
  show ?thesis
  proof (cases b1)
    case True
    then obtain A code hs B where "X1 = A @ response_block (ex_rw e) code hs @ B"
      using c1 fresh by blast
    then have "sink (ex_world (run rc (pre @ HWrite p # post) e)) =
        sink (ex_world e) @ A @ response_block (ex_rw e) code hs @ B @ [chunk_line (ex_rw e) p] @ X3"
      using whole s1 s2 s3 True by simp
    then show ?thesis by blast
  next
    case False
    then have "sink (ex_world (run rc (pre @ HWrite p # post) e)) =
        sink (ex_world e) @ X1 @ response_block (ex_rw e) 200 (hdr (ex_world ?e1)) @ []
          @ [chunk_line (ex_rw e) p] @ X3"
      using whole s1 s2 s3 by simp
    then show ?thesis by blast
  qed
qed

theorem header_block_before_chunk_line_witness:
  "\<not> wroteHeader (ex_rw demo_exch) \<and> \<not> ex_panicked (run demo_body [HRead ''xxxx''] demo_exch)
   \<and> (\<exists>A code hs B C.
        sink (ex_world (run demo_body ([HRead ''xxxx''] @ HWrite ''pong'' # [HFlush]) demo_exch)) =
          sink (ex_world demo_exch) @ A @ response_block (ex_rw demo_exch) code hs @ B
            @ [chunk_line (ex_rw demo_exch) ''pong''] @ C)"
proof -
  have h1: "\<not> wroteHeader (ex_rw demo_exch)" by (simp add: demo_defs)
  have h2: "\<not> ex_panicked (run demo_body [HRead ''xxxx''] demo_exch)"
    by (simp add: demo_defs step_HRead Let_def del: step.simps)
  show ?thesis using h1 h2 header_block_before_chunk_line [OF h1 h2] by blast
qed

text \<open>
  C5. When the underlying read keeps to the bound \<open>n \<le> len(p)\<close> of \<^verbatim>\<open>io.Reader\<close>,
  \<^verbatim>\<open>Read\<close> returns the underlying count and error as they are, and for a positive
  count it has logged the bytes \<^verbatim>\<open>p[:n]\<close> by then, also when the error is not nil.
\<close>

theorem Read_returns_underlying_result:
  assumes "Read_answer (rc_ReadCloser r) (body_calls wd) p = (n, err, d)" and "n \<le> int (length p)"
  shows "fst (Read r p wd) = Some (n, err)
    \<and> snd (Read r p wd) =
        wd\<lparr>sink := sink wd @
              (if 0 < n
               then [(2, case redactor (rc_MultilineLogger r) of
                           None \<Rightarrow> rc_requestID r @ '' > '' @ take (nat n) (stored p d) @ [CHR 0x0A]
                         | Some f \<Rightarrow> f (rc_requestID r @ '' > '' @ take (nat n) (stored p d) @ [CHR 0x0A]))]
               else []),
           body_calls := body_calls wd @ [BRead p]\<rparr>"
  using assms by (simp add: Read_eq Let_def redacted_def split: option.splits)

theorem Read_returns_underlying_result_witness:
  "Read_answer (rc_ReadCloser demo_body) (body_calls demo_world) ''xxxx'' = (2, Some (Err ''unexpected EOF''), ''pi'')
   \<and> (2::int) \<le> int (length ''xxxx'')
   \<and> fst (Read demo_body ''xxxx'' demo_world) = Some (2, Some (Err ''unexpected EOF''))
   \<and> sink (snd (Read demo_body ''xxxx'' demo_world)) = [(2, ''id > pi'' @ [CHR 0x0A])]"
proof -
  have h1: "Read_answer (rc_ReadCloser demo_body) (body_calls demo_world) ''xxxx''
      = (2, Some (Err ''unexpected EOF''), ''pi'')"
    by (simp add: demo_defs)
  have h2: "(2::int) \<le> int (length ''xxxx'')" by simp
  have c: "redactor (rc_MultilineLogger demo_body) = None" "rc_requestID demo_body = ''id''"
    "sink demo_world = []" "stored ''xxxx'' ''pi'' = ''pixx''"
    by (simp_all add: demo_defs stored_def)
  show ?thesis using h1 h2 c Read_returns_underlying_result [OF h1 h2] by simp
qed

text \<open>
  C6. With a redactor the sink receives the redactor applied to the whole formatted
  line, without one the line itself; the log of a whole exchange under a redactor is
  the log of the exchange without one, with the redactor applied to each of its lines.
\<close>

theorem redactor_on_formatted_line:
  "Output (l\<lparr>redactor := Some f\<rparr>) d s wd = (Logger l (sink wd) d (f s), wd\<lparr>sink := sink wd @ [(d, f s)]\<rparr>)
   \<and> Output (l\<lparr>redactor := None\<rparr>) d s wd = (Logger l (sink wd) d s, wd\<lparr>sink := sink wd @ [(d, s)]\<rparr>)
   \<and> Print (l\<lparr>redactor := Some f\<rparr>) v wd = wd\<lparr>sink := sink wd @ [(2, f (Sprint v))]\<rparr>
   \<and> Printf (l\<lparr>redactor := Some f\<rparr>) format v wd = wd\<lparr>sink := sink wd @ [(2, f (Sprintf format v))]\<rparr>
   \<and> Println (l\<lparr>redactor := Some f\<rparr>) v wd = wd\<lparr>sink := sink wd @ [(2, f (Sprintln v))]\<rparr>
   \<and> ex_world (ServeHTTP (l\<lparr>redactor := Some f\<rparr>) w r wd) =
       relog f (length (sink wd)) (ex_world (ServeHTTP (l\<lparr>redactor := None\<rparr>) w r wd))"
proof -
  have "\<forall>s. redacted (l\<lparr>redactor := Some f\<rparr>) s = f (redacted (l\<lparr>redactor := None\<rparr>) s)"
    by (simp add: redacted_def)
  then have "ServeHTTP (l\<lparr>redactor := Some f\<rparr>) w r wd =
      relog_exch f (length (sink wd)) (l\<lparr>redactor := Some f\<rparr>) (ServeHTTP (l\<lparr>redactor := None\<rparr>) w r wd)"
    by (rule ServeHTTP_relog) simp_all
  then show ?thesis
    by (simp add: Output_eq Print_eq Printf_eq Println_eq redacted_def relog_exch_def)
qed

text \<open>
  C7. \<^verbatim>\<open>Output\<close> returns the sink's error. \<^verbatim>\<open>Print\<close>, \<^verbatim>\<open>Printf\<close> and
  \<^verbatim>\<open>Println\<close> return nothing and do the same whatever the sink answers, and so does
  the whole exchange: the world, what the handler observes and whether it panics.
\<close>

theorem sink_failure_discarded:
  "fst (Output l d s wd) =
     Logger l (sink wd) d (case redactor l of None \<Rightarrow> s | Some f \<Rightarrow> f s)
   \<and> Print (l\<lparr>Logger := g\<rparr>) v wd = Print l v wd
   \<and> Printf (l\<lparr>Logger := g\<rparr>) format v wd = Printf l format v wd
   \<and> Println (l\<lparr>Logger := g\<rparr>) v wd = Println l v wd
   \<and> ex_world (ServeHTTP (l\<lparr>Logger := g\<rparr>) w r wd) = ex_world (ServeHTTP l w r wd)
   \<and> ex_obs (ServeHTTP (l\<lparr>Logger := g\<rparr>) w r wd) = ex_obs (ServeHTTP l w r wd)
   \<and> ex_panicked (ServeHTTP (l\<lparr>Logger := g\<rparr>) w r wd) = ex_panicked (ServeHTTP l w r wd)"
proof -
  have "\<forall>s. redacted (l\<lparr>Logger := g\<rparr>) s = (\<lambda>s. s) (redacted l s)"
    by (simp add: redacted_def)
  then have "ServeHTTP (l\<lparr>Logger := g\<rparr>) w r wd =
      relog_exch (\<lambda>s. s) (length (sink wd)) (l\<lparr>Logger := g\<rparr>) (ServeHTTP l w r wd)"
    by (rule ServeHTTP_relog) simp_all
  then show ?thesis
    by (simp add: Output_eq Print_eq Printf_eq Println_eq redacted_def relog_exch_def relog_id)
qed

text \<open>
  C8. \<^verbatim>\<open>ServeHTTP\<close> logs the request line, one line per header value, the values of
  a name in their order, and the blank separator; then it runs the handler on the
  wrapped body and writer. The three lines come first in what the exchange logs.
\<close>

theorem ServeHTTP_request_block:
  "ServeHTTP l w r wd =
     run \<lparr>rc_ReadCloser = Body r, rc_MultilineLogger = l, rc_requestID = RequestIDCreator l r\<rparr>
       (handler l r)
       \<lparr>ex_rw = \<lparr>rw_Flusher = None, rw_ResponseWriter = w, rw_MultilineLogger = l,
                 rw_request = r, rw_requestID = RequestIDCreator l r, wroteHeader = False\<rparr>,
        ex_world = wd\<lparr>sink := sink wd @
          [(2, redacted l (RequestIDCreator l r @ '' > '' @ Method r @ '' '' @ URL_RequestURI r
                 @ '' '' @ Proto r))]
          @ concat (map (\<lambda>(name, vs).
                map (\<lambda>v. (2, redacted l (RequestIDCreator l r @ '' > '' @ name @ '': '' @ v))) vs)
              (Header r))
          @ [(2, redacted l (RequestIDCreator l r @ '' >'' @ [CHR 0x0A]))]\<rparr>,
        ex_obs = [], ex_panicked = False\<rparr>
   \<and> (\<exists>X. sink (ex_world (ServeHTTP l w r wd)) = sink wd @ request_block l r @ X)"
proof -
  let ?rc = "\<lparr>rc_ReadCloser = Body r, rc_MultilineLogger = l, rc_requestID = RequestIDCreator l r\<rparr>"
  let ?e = "\<lparr>ex_rw = \<lparr>rw_Flusher = None, rw_ResponseWriter = w, rw_MultilineLogger = l,
                      rw_request = r, rw_requestID = RequestIDCreator l r, wroteHeader = False\<rparr>,
             ex_world = wd\<lparr>sink := sink wd @ request_block l r\<rparr>, ex_obs = [], ex_panicked = False\<rparr>"
  obtain X where "sink (ex_world (run ?rc (handler l r) ?e)) = sink (ex_world ?e) @ X"
    using run_sink [of ?rc "handler l r" ?e] by blast
  then have "sink (ex_world (ServeHTTP l w r wd)) = sink wd @ request_block l r @ X"
    by (simp add: ServeHTTP_eq)
  then have "\<exists>X. sink (ex_world (ServeHTTP l w r wd)) = sink wd @ request_block l r @ X"
    by blast
  then show ?thesis
    by (simp add: ServeHTTP_eq header_lines_def request_block_def)
qed

text \<open>
  C9. A \<^verbatim>\<open>Write\<close> on a writer whose headers are uncommitted logs the response line
  with code 200 and text OK, the header lines and the blank separator, forwards
  \<^verbatim>\<open>WriteHeader(200)\<close>, and only then logs and forwards the chunk.
\<close>

theorem first_Write_commits_200:
  "\<not> wroteHeader w \<Longrightarrow>
   Write w p wd =
     (Write_answer (rw_ResponseWriter w) (wire wd @ [UWriteHeader 200]) p,
      w\<lparr>wroteHeader := True\<rparr>,
      wd\<lparr>sink := sink wd
            @ [(2, redacted (rw_MultilineLogger w)
                     (rw_requestID w @ '' < '' @ Proto (rw_request w) @ '' 200 OK''))]
            @ header_lines (rw_MultilineLogger w) (rw_requestID w @ '' < '') (hdr wd)
            @ [(2, redacted (rw_MultilineLogger w) (rw_requestID w @ '' <'' @ [CHR 0x0A]))]
            @ [chunk_line w p],
         wire := wire wd @ [UWriteHeader 200, UWrite p]\<rparr>)"
  by (simp add: Write_eq response_block_def itoa_def nat_digits.simps StatusText_def statusText_def)

theorem first_Write_commits_200_witness:
  "\<not> wroteHeader demo_rw
   \<and> Write demo_rw (''pong'' @ [CHR 0x0A]) demo_world =
       ((5, None), demo_rw\<lparr>wroteHeader := True\<rparr>,
        demo_world\<lparr>sink := [(2, ''id < HTTP/1.1 200 OK''), (2, ''id < Content-Type: text/plain''),
                             (2, ''id <'' @ [CHR 0x0A]), (2, ''id < pong'' @ [CHR 0x0A])],
                    wire := [UWriteHeader 200, UWrite (''pong'' @ [CHR 0x0A])]\<rparr>)"
proof -
  have h: "\<not> wroteHeader demo_rw" by (simp add: demo_defs)
  have c: "sink demo_world = []" "wire demo_world = []"
    "Write_answer (rw_ResponseWriter demo_rw) [UWriteHeader 200] (''pong'' @ [CHR 0x0A]) = (5, None)"
    "redacted (rw_MultilineLogger demo_rw) = (\<lambda>s. s)" "rw_requestID demo_rw = ''id''"
    "Proto (rw_request demo_rw) = ''HTTP/1.1''"
    "header_lines (rw_MultilineLogger demo_rw) ''id < '' (hdr demo_world) = [(2, ''id < Content-Type: text/plain'')]"
    "chunk_line demo_rw (''pong'' @ [CHR 0x0A]) = (2, ''id < pong'' @ [CHR 0x0A])"
    by (simp_all add: demo_defs text_defs fun_eq_iff)
  show ?thesis using h c first_Write_commits_200 [OF h, of "''pong'' @ [CHR 0x0A]" demo_world] by simp
qed

text \<open>
  C10. \<^verbatim>\<open>Flush\<close> always returns: it forwards to the underlying writer when that
  implements \<^verbatim>\<open>http.Flusher\<close> and does nothing otherwise, whatever the wrapper's own
  embedded flusher is; a handler's call of it never ends the handler by a panic.
\<close>

theorem Flush_never_panics:
  "Flush w wd =
     Some (if implements_Flusher (rw_ResponseWriter w) then wd\<lparr>wire := wire wd @ [UFlush]\<rparr> else wd)
   \<and> ex_panicked (step rc HFlush e) = ex_panicked e"
  by (simp add: Flush_eq)

end
